theory Spec2Isabelle
  imports Complex_Main
begin

section \<open>Python values and exceptions\<close>

text \<open>
  The program is Python. A value that the code compares, formats or tests for truth
  keeps its dynamic type: \<open>PyStr\<close> a string, \<open>PyInt\<close> an unbounded integer,
  \<open>PyFloat\<close> a float, kept as the rational it denotes. A float operation gives the
  exact result rounded to the nearest float (\<open>fl\<close> below), except where a definition
  says that it keeps the result exact.
\<close>

datatype pyval = PyStr string | PyInt int | PyFloat rat

datatype error =
  AttributeError | ImportError | TclError | OSError | IndexError | KeyError
  | ZeroDivisionError

text \<open>\<open>a == b\<close>: a string never equals a number; an int and a float compare by value.\<close>

fun py_eq :: "pyval \<Rightarrow> pyval \<Rightarrow> bool" where
  "py_eq (PyStr a) (PyStr b) = (a = b)"
| "py_eq (PyInt a) (PyInt b) = (a = b)"
| "py_eq (PyFloat a) (PyFloat b) = (a = b)"
| "py_eq (PyInt a) (PyFloat b) = (of_int a = b)"
| "py_eq (PyFloat a) (PyInt b) = (a = of_int b)"
| "py_eq (PyStr a) (PyInt b) = False"
| "py_eq (PyStr a) (PyFloat b) = False"
| "py_eq (PyInt a) (PyStr b) = False"
| "py_eq (PyFloat a) (PyStr b) = False"

text \<open>\<open>if v:\<close>: the empty string and zero are false.\<close>

fun py_truth :: "pyval \<Rightarrow> bool" where
  "py_truth (PyStr s) = (s \<noteq> [])"
| "py_truth (PyInt i) = (i \<noteq> 0)"
| "py_truth (PyFloat r) = (r \<noteq> 0)"

text \<open>Decimal text of an integer, as \<open>str\<close> and \<open>'{}'.format\<close> give it.\<close>

fun str_nat :: "nat \<Rightarrow> string" where
  "str_nat n =
     (if n < 10 then [char_of (48 + n)]
      else str_nat (n div 10) @ [char_of (48 + n mod 10)])"

definition str_int :: "int \<Rightarrow> string" where
  "str_int i = (if i < 0 then CHR ''-'' # str_nat (nat (- i)) else str_nat (nat i))"

text \<open>
  \<open>'{}'.format(v)\<close>. The text of a float is the parameter \<open>repr_float\<close>: how Python
  prints a float is not part of this program.
\<close>

fun py_str :: "(rat \<Rightarrow> string) \<Rightarrow> pyval \<Rightarrow> string" where
  "py_str repr_float (PyStr s) = s"
| "py_str repr_float (PyInt i) = str_int i"
| "py_str repr_float (PyFloat r) = repr_float r"

text \<open>
  \<open>try: body  except: handler\<close> with a bare \<open>except\<close>: whatever the body raises, the
  handler's value stands in.
\<close>

definition try_except :: "error + 'a \<Rightarrow> 'a \<Rightarrow> 'a" where
  "try_except body handler = (case body of Inl e \<Rightarrow> handler | Inr v \<Rightarrow> v)"

text \<open>\<open>round(x, 0)\<close> on a float: to the nearest integer, ties to the even one.\<close>

definition py_round :: "rat \<Rightarrow> rat" where
  "py_round x =
     (let f = \<lfloor>x\<rfloor>; d = x - of_int f
      in if d < 1 / 2 then of_int f
         else if 1 / 2 < d then of_int (f + 1)
         else if even f then of_int f else of_int (f + 1))"

text \<open>\<open>int(x)\<close> on a float: truncation towards zero.\<close>

definition py_int :: "rat \<Rightarrow> int" where
  "py_int x = (if 0 \<le> x then \<lfloor>x\<rfloor> else \<lceil>x\<rceil>)"

text \<open>
  A Python float is a binary floating-point number with 53 significant bits, and each
  arithmetic operation returns the exact result rounded to the nearest such number,
  ties to the one with an even significand. \<open>binary_exponent x 0\<close> is the \<open>e\<close> with
  \<open>2^e \<le> x < 2^(e+1)\<close> for a positive \<open>x\<close>; \<open>fl x\<close> is \<open>x\<close> rounded. The exponent
  is unbounded here: overflow to infinity and the subnormal numbers are not modelled.
\<close>

definition round_half_even :: "rat \<Rightarrow> int" where
  "round_half_even q =
     (let f = \<lfloor>q\<rfloor>; d = q - of_int f
      in if d < 1 / 2 then f
         else if 1 / 2 < d then f + 1
         else if even f then f else f + 1)"

definition pow2 :: "int \<Rightarrow> rat" where
  "pow2 e = (if 0 \<le> e then 2 ^ nat e else 1 / 2 ^ nat (- e))"

function binary_exponent :: "rat \<Rightarrow> int \<Rightarrow> int" where
  "binary_exponent x e =
     (if x \<le> 0 then e
      else if 2 \<le> x then binary_exponent (x / 2) (e + 1)
      else if x < 1 then binary_exponent (2 * x) (e - 1)
      else e)"
  by pat_completeness auto
termination
proof (relation "measure (\<lambda>(x, e). if 1 \<le> x then nat \<lceil>x\<rceil> else nat \<lceil>1 / x\<rceil> + 2)")
  show "wf (measure (\<lambda>(x::rat, e::int). if 1 \<le> x then nat \<lceil>x\<rceil> else nat \<lceil>1 / x\<rceil> + 2))"
    by simp
next
  fix x :: rat and e :: int
  assume "\<not> x \<le> 0" "2 \<le> x"
  then have "\<lceil>x / 2\<rceil> < \<lceil>x\<rceil>" by linarith
  moreover have "0 < \<lceil>x\<rceil>" using \<open>2 \<le> x\<close> by linarith
  ultimately show "((x / 2, e + 1), (x, e))
      \<in> measure (\<lambda>(x, e). if 1 \<le> x then nat \<lceil>x\<rceil> else nat \<lceil>1 / x\<rceil> + 2)"
    using \<open>2 \<le> x\<close> by auto
next
  fix x :: rat and e :: int
  assume a: "\<not> x \<le> 0" "\<not> 2 \<le> x" "x < 1"
  then have x: "0 < x" by simp
  have y: "1 < 1 / x" using a x by simp
  have half: "\<lceil>z / 2\<rceil> < \<lceil>z\<rceil>" if "2 \<le> z" for z :: rat
    using that by linarith
  show "((2 * x, e - 1), (x, e))
      \<in> measure (\<lambda>(x, e). if 1 \<le> x then nat \<lceil>x\<rceil> else nat \<lceil>1 / x\<rceil> + 2)"
  proof (cases "1 \<le> 2 * x")
    case True
    have "2 * x < 2" using a by simp
    then have "\<lceil>2 * x\<rceil> \<le> 2" by linarith
    then have n1: "nat \<lceil>2 * x\<rceil> \<le> 2" by (simp only: nat_le_iff)
    have "0 < \<lceil>1 / x\<rceil>" using y by linarith
    then have n2: "0 < nat \<lceil>1 / x\<rceil>" by simp
    from n1 n2 have "nat \<lceil>2 * x\<rceil> < nat \<lceil>1 / x\<rceil> + 2" by linarith
    then show ?thesis using True a by simp
  next
    case False
    have h: "1 / (2 * x) = (1 / x) / 2" by simp
    have "2 < 1 / x" using False x by (simp add: field_simps)
    then have "\<lceil>(1 / x) / 2\<rceil> < \<lceil>1 / x\<rceil>"
      by (intro half) simp
    moreover have "0 < \<lceil>1 / x\<rceil>" using y by linarith
    ultimately show ?thesis
      using False a unfolding in_measure
      by (simp add: h del: times_divide_eq_left divide_divide_eq_left)
  qed
qed

definition fl :: "rat \<Rightarrow> rat" where
  "fl x =
     (if x = 0 then 0
      else (let ulp = pow2 (binary_exponent \<bar>x\<bar> 0 - 52)
            in sgn x * of_int (round_half_even (\<bar>x\<bar> / ulp)) * ulp))"

section \<open>The diagnostics snapshot (logs/snapshot.py)\<close>

text \<open>
  The script reads the host through library calls, each of which either returns or
  raises. \<open>host\<close> records the outcome of each call on one machine:
  \<open>platform.release()\<close> returns a string; \<open>sys.getwindowsversion()\<close> exists on
  Windows only; \<open>tk.Tk()\<close> needs a display; \<open>os_release_rows\<close> is what
  \<open>csv.reader\<close> yields for \<open>/etc/os-release\<close>, when the file opens.
\<close>

record tk_root =
  winfo_screenwidth :: int
  winfo_screenheight :: int
  winfo_fpixels :: rat

record host =
  sys_version :: string
  platform_system :: string
  platform_release :: string
  getwindowsversion_build :: "error + int"
  tk_patchlevel :: "error + string"
  tk_Tk :: "error + tk_root"
  os_release_rows :: "error + string list list"
  PIL_version :: "error + string"
  numpy_version :: "error + string"

text \<open>Lines 2 to 4: carriage returns and newlines are removed from the version text.\<close>

definition python_version :: "host \<Rightarrow> string" where
  "python_version h =
     filter (\<lambda>c. c \<noteq> CHR 0x0A) (filter (\<lambda>c. c \<noteq> CHR 0x0D) (sys_version h))"

text \<open>
  Lines 6 to 13. \<open>release\<close> starts as the string \<open>platform.release()\<close> returns, and
  the test \<open>release == 10\<close> compares it with the integer 10. \<open>release_build_try\<close> is
  the body of the \<open>try\<close>; the result is the pair \<open>(release, build)\<close> after the block.
\<close>

definition release_build_try :: "host \<Rightarrow> error + pyval \<times> pyval" where
  "release_build_try h =
     (let release = PyStr (platform_release h)
      in case getwindowsversion_build h of
           Inl e \<Rightarrow> Inl e
         | Inr build \<Rightarrow>
             Inr (if platform_system h = ''Windows'' \<and> py_eq release (PyInt 10)
                     \<and> 22000 \<le> build
                  then PyInt 11 else release,
                  PyInt build))"

definition release_build :: "host \<Rightarrow> pyval \<times> pyval" where
  "release_build h =
     try_except (release_build_try h) (PyStr (platform_release h), PyStr '''')"

text \<open>
  The module's variables \<open>release\<close> and \<open>build\<close> after line 13 (suffixed: the
  application's state has a \<open>build\<close> of its own).
\<close>

definition release_val :: "host \<Rightarrow> pyval" where
  "release_val h = fst (release_build h)"

definition build_val :: "host \<Rightarrow> pyval" where
  "build_val h = snd (release_build h)"

text \<open>
  Lines 15 to 26: one guarded block computes the tkinter version, the screen geometry,
  the dpi and the scaling factor (\<open>tkinter_try\<close> is its body); a failure of any step
  resets all four.
\<close>

definition tkinter_try :: "host \<Rightarrow> error + pyval \<times> pyval \<times> pyval \<times> pyval" where
  "tkinter_try h =
     (case tk_patchlevel h of
        Inl e \<Rightarrow> Inl e
      | Inr tkinter_version \<Rightarrow>
          (case tk_Tk h of
             Inl e \<Rightarrow> Inl e
           | Inr root_w \<Rightarrow>
               (let tk_screen_geometry =
                      str_int (winfo_screenwidth root_w) @ ''x''
                        @ str_int (winfo_screenheight root_w);
                    dpi = py_round (winfo_fpixels root_w);
                    factor = fl (dpi / 96)
                in Inr (PyStr tkinter_version, PyStr tk_screen_geometry,
                        PyFloat dpi, PyFloat factor))))"

definition tkinter_probe :: "host \<Rightarrow> pyval \<times> pyval \<times> pyval \<times> pyval" where
  "tkinter_probe h =
     try_except (tkinter_try h) (PyStr ''fail'', PyStr ''fail'', PyStr '''', PyStr '''')"

definition tkinter_version :: "host \<Rightarrow> pyval" where
  "tkinter_version h = fst (tkinter_probe h)"

definition tk_screen_geometry :: "host \<Rightarrow> pyval" where
  "tk_screen_geometry h = fst (snd (tkinter_probe h))"

definition dpi :: "host \<Rightarrow> pyval" where
  "dpi h = fst (snd (snd (tkinter_probe h)))"

definition factor :: "host \<Rightarrow> pyval" where
  "factor h = snd (snd (snd (tkinter_probe h)))"

text \<open>
  Lines 28 to 37. The loop stores \<open>row[1]\<close> under \<open>row[0]\<close> and raises IndexError
  on a row with fewer than two fields; the lookups of NAME and VERSION raise KeyError.
  \<open>distribution_try\<close> is the body of the \<open>try\<close>.
\<close>

fun read_rows :: "(string \<rightharpoonup> string) \<Rightarrow> string list list \<Rightarrow> error + (string \<rightharpoonup> string)" where
  "read_rows release_data [] = Inr release_data"
| "read_rows release_data (row # rows) =
     (case row of
        k # v # _ \<Rightarrow> read_rows (release_data(k \<mapsto> v)) rows
      | _ \<Rightarrow> Inl IndexError)"

definition distribution_try :: "host \<Rightarrow> error + string" where
  "distribution_try h =
     (case os_release_rows h of
        Inl e \<Rightarrow> Inl e
      | Inr rows \<Rightarrow>
          (case read_rows Map.empty rows of
             Inl e \<Rightarrow> Inl e
           | Inr release_data \<Rightarrow>
               (case release_data ''NAME'' of
                  None \<Rightarrow> Inl KeyError
                | Some name \<Rightarrow>
                    (case release_data ''VERSION'' of
                       None \<Rightarrow> Inl KeyError
                     | Some version \<Rightarrow> Inr (name @ '' '' @ version)))))"

definition distribution :: "host \<Rightarrow> string" where
  "distribution h = try_except (distribution_try h) ''''"

text \<open>Lines 39 to 43.\<close>

definition os_text :: "(rat \<Rightarrow> string) \<Rightarrow> host \<Rightarrow> string" where
  "os_text repr_float h =
     (let t0 = platform_system h @ '' '' @ py_str repr_float (release_val h);
          t1 = (if py_truth (build_val h)
                then t0 @ '' ('' @ py_str repr_float (build_val h) @ '')'' else t0)
      in if distribution h \<noteq> []
         then t1 @ '' ('' @ distribution h @ '')'' else t1)"

text \<open>Lines 45 to 55.\<close>

definition PIL_version_probe :: "host \<Rightarrow> string" where
  "PIL_version_probe h = try_except (PIL_version h) ''fail''"

definition numpy_version_probe :: "host \<Rightarrow> string" where
  "numpy_version_probe h = try_except (numpy_version h) ''fail''"

text \<open>Lines 57 to 66: the two dictionaries, in insertion order.\<close>

definition snapshot :: "(rat \<Rightarrow> string) \<Rightarrow> host \<Rightarrow> (string \<times> string) list" where
  "snapshot repr_float h =
     [(''python'', python_version h),
      (''OS'', os_text repr_float h),
      (''screen-dpi'',
         py_str repr_float (tk_screen_geometry h) @ '' (''
           @ py_str repr_float (dpi h) @ ''dpi x''
           @ py_str repr_float (factor h) @ '')'')]"

definition modules :: "(rat \<Rightarrow> string) \<Rightarrow> host \<Rightarrow> (string \<times> string) list" where
  "modules repr_float h =
     [(''tkinter'', py_str repr_float (tkinter_version h)),
      (''Pillow'', PIL_version_probe h),
      (''numpy'', numpy_version_probe h)]"

text \<open>\<open>'{:>{min}}'.format(s, min=n)\<close>: \<open>s\<close> right-aligned in a field of \<open>n\<close> characters.\<close>

definition rjust :: "nat \<Rightarrow> string \<Rightarrow> string" where
  "rjust n s = replicate (n - length s) CHR '' '' @ s"

text \<open>Lines 68 to 71: the widest label, at least 5.\<close>

fun min_title_width :: "nat \<Rightarrow> (string \<times> string) list \<Rightarrow> nat" where
  "min_title_width m [] = m"
| "min_title_width m ((type, v) # rest) =
     min_title_width (if m < length type then length type else m) rest"

text \<open>Lines 78 to 81: the modules line grows by one parenthesised pair per module.\<close>

fun modules_text :: "string \<Rightarrow> (string \<times> string) list \<Rightarrow> string" where
  "modules_text acc [] = acc"
| "modules_text acc ((type, v) # rest) =
     modules_text (acc @ ''('' @ type @ '' '' @ v @ '') '') rest"

text \<open>Lines 68 to 83: everything the script prints, one element per \<open>print\<close>.\<close>

definition report :: "(rat \<Rightarrow> string) \<Rightarrow> host \<Rightarrow> string list" where
  "report repr_float h =
     (let w = min_title_width 5 (snapshot repr_float h)
      in map (\<lambda>(type, v). rjust (w + 1) type @ '': '' @ v) (snapshot repr_float h)
         @ [modules_text (rjust (w + 1) ''modules'' @ '': '') (modules repr_float h)])"

section \<open>Widgets (src/widgets.py)\<close>

text \<open>
  The toolkit's classes are not part of the repository. A \<open>QImage\<close> is null or has a
  pixel size; a null image reports width and height 0.
\<close>

datatype QImage = NullImage | Bitmap int int

fun isNull :: "QImage \<Rightarrow> bool" where
  "isNull NullImage = True"
| "isNull (Bitmap w h) = False"

fun image_width :: "QImage \<Rightarrow> int" where
  "image_width NullImage = 0"
| "image_width (Bitmap w h) = w"

fun image_height :: "QImage \<Rightarrow> int" where
  "image_height NullImage = 0"
| "image_height (Bitmap w h) = h"

text \<open>
  The part of a \<open>QWidget\<close> the code reads and writes: its current size and its height
  constraints.
\<close>

record QWidget =
  width :: int
  height :: int
  minimumHeight :: int
  maximumHeight :: int

text \<open>
  \<open>setMinimumHeight\<close> and \<open>setFixedHeight\<close>: the toolkit stores the constraint and
  resizes the widget at once when its current height violates it, so that \<open>height()\<close>
  afterwards respects it. The toolkit's own bounds on a widget's size (0 and 16777215)
  are not modelled.
\<close>

definition setMinimumHeight :: "int \<Rightarrow> 'a QWidget_scheme \<Rightarrow> 'a QWidget_scheme" where
  "setMinimumHeight m wd = wd\<lparr>height := max m (height wd), minimumHeight := m\<rparr>"

definition setFixedHeight :: "int \<Rightarrow> 'a QWidget_scheme \<Rightarrow> 'a QWidget_scheme" where
  "setFixedHeight h wd = wd\<lparr>height := h, minimumHeight := h, maximumHeight := h\<rparr>"

text \<open>What a paint event asks of the \<open>QPainter\<close>, in order.\<close>

record QRect =
  rect_x :: int
  rect_y :: int
  rect_w :: int
  rect_h :: int

datatype paint_op =
  DrawImageRect QRect QImage
  | DrawImageAt rat rat QImage

subsection \<open>ImageLabel\<close>

text \<open>The attributes \<open>_w\<close>, \<open>_h\<close> and \<open>p\<close> of the class, on top of the widget.\<close>

record ImageLabel = QWidget +
  self_w :: int
  self_h :: int
  self_p :: QImage

text \<open>
  \<open>ImageLabel.__init__\<close> (lines 167 to 176). \<open>QImage_load\<close> is the toolkit loading
  the file at a path; \<open>base\<close> is the widget the superclass constructor made. The size
  policy and the repaint request (\<open>update\<close>) change nothing that is modelled here.
\<close>

definition ImageLabel_init ::
  "(string \<Rightarrow> QImage) \<Rightarrow> QWidget \<Rightarrow> string \<Rightarrow> int \<times> int \<Rightarrow> ImageLabel" where
  "ImageLabel_init QImage_load base path aspect_ratio =
     setMinimumHeight 10
       (QWidget.extend base
          \<lparr>self_w = fst aspect_ratio, self_h = snd aspect_ratio,
           self_p = (if path = [] then NullImage else QImage_load path)\<rparr>)"

text \<open>\<open>ImageLabel.set_image\<close> (lines 178 to 182).\<close>

definition set_image :: "QImage \<Rightarrow> ImageLabel \<Rightarrow> ImageLabel" where
  "set_image p self = self\<lparr>self_p := p, self_w := image_width p, self_h := image_height p\<rparr>"

text \<open>
  \<open>ImageLabel.paintEvent\<close> (lines 184 to 192): the widget after the event and the
  painter's operations, or the exception of the division \<open>w * self._h / self._w\<close>.
\<close>

definition ImageLabel_paintEvent :: "ImageLabel \<Rightarrow> error + ImageLabel \<times> paint_op list" where
  "ImageLabel_paintEvent self =
     (if \<not> isNull (self_p self) then
        (let w = width self
         in if self_w self = 0 then Inl ZeroDivisionError
            else
              (let h = py_int (fl (of_int (w * self_h self) / of_int (self_w self)));
                   rect = \<lparr>rect_x = 0, rect_y = 0, rect_w = w, rect_h = h\<rparr>
               in Inr (setFixedHeight h self, [DrawImageRect rect (self_p self)])))
      else Inr (self, []))"

subsection \<open>ShipImage\<close>

text \<open>
  Line 203: the scale factor, from the widget's size when the line runs. Each quotient
  of two integers is a float, the exact quotient rounded.
\<close>

definition scale_factor :: "ImageLabel \<Rightarrow> rat" where
  "scale_factor self =
     min (fl (of_int (width self) / of_int (self_w self)))
         (fl (of_int (height self) / of_int (self_h self)))"

text \<open>
  \<open>ShipImage.paintEvent\<close> (lines 196 to 208) runs the inherited event first and reads
  the widget's size after it. An integer that meets a float is converted to a float
  first, and the product and the difference are rounded; the absolute value and
  \<open>// 2\<close>, the floor of the half, are exact. \<open>scaledToWidth\<close> is the toolkit's image
  scaling, and receives the float \<open>w\<close>.
\<close>

definition ShipImage_paintEvent ::
  "(QImage \<Rightarrow> rat \<Rightarrow> QImage) \<Rightarrow> ImageLabel \<Rightarrow> error + ImageLabel \<times> paint_op list" where
  "ShipImage_paintEvent scaledToWidth self0 =
     (case ImageLabel_paintEvent self0 of
        Inl e \<Rightarrow> Inl e
      | Inr (self, ops) \<Rightarrow>
          (if \<not> isNull (self_p self) then
             (let current_width = width self;
                  current_height = height self
              in if self_w self = 0 \<or> self_h self = 0 then Inl ZeroDivisionError
                 else
                   (let w = fl (fl (of_int (self_w self)) * scale_factor self);
                        h = fl (fl (of_int (self_h self)) * scale_factor self);
                        new_p = scaledToWidth (self_p self) w
                    in Inr (setFixedHeight (image_height new_p) self,
                            ops @ [DrawImageAt
                                     (of_int \<lfloor>\<bar>fl (w - fl (of_int current_width))\<bar> / 2\<rfloor>)
                                     (of_int \<lfloor>\<bar>fl (h - fl (of_int current_height))\<bar> / 2\<rfloor>)
                                     new_p])))
           else Inr (self, ops)))"

subsection \<open>ItemButton\<close>

text \<open>
  A Python object passed in a call is a string or something else;
  \<open>*kwargs\<close> on a dictionary yields its keys, which are strings.
\<close>

datatype 'o pyobj = Str string | Obj 'o

text \<open>
  Line 222, \<open>super().__init__(*args, *kwargs)\<close>: the positional and the keyword
  arguments the superclass constructor receives, from the extra positional arguments
  \<open>args\<close> and the extra keyword arguments \<open>kwargs\<close> of the call.
\<close>

definition ItemButton_super_init ::
  "'o pyobj list \<Rightarrow> (string \<times> 'o pyobj) list \<Rightarrow> 'o pyobj list \<times> (string \<times> 'o pyobj) list" where
  "ItemButton_super_init args kwargs = (args @ map (\<lambda>(k, v). Str k) kwargs, [])"

text \<open>The call \<open>QFrame(*args, **kwargs)\<close>, for comparison.\<close>

definition QFrame_call ::
  "'o pyobj list \<Rightarrow> (string \<times> 'o pyobj) list \<Rightarrow> 'o pyobj list \<times> (string \<times> 'o pyobj) list" where
  "QFrame_call args kwargs = (args, kwargs)"

datatype MouseButton = NoButton | LeftButton | RightButton | MiddleButton | BackButton | ForwardButton

datatype signal = clicked | rightclicked

record QMouseEvent =
  button :: MouseButton
  localPos_x :: rat
  localPos_y :: rat
  accepted :: bool

text \<open>
  \<open>ItemButton.mouseReleaseEvent\<close> (lines 262 to 271): the signals emitted and the
  event afterwards.
\<close>

definition mouseReleaseEvent ::
  "'a QWidget_scheme \<Rightarrow> QMouseEvent \<Rightarrow> signal list \<times> QMouseEvent" where
  "mouseReleaseEvent self event =
     (let emitted =
            (if button event = LeftButton
                \<and> localPos_x event < of_int (width self)
                \<and> localPos_y event < of_int (height self)
             then [clicked]
             else if button event = RightButton
                \<and> localPos_x event < of_int (width self)
                \<and> localPos_y event < of_int (height self)
             then [rightclicked]
             else [])
      in (emitted, event\<lparr>accepted := True\<rparr>))"

text \<open>
  The button's bounding box in its own coordinates: the rectangle with corners
  \<open>(0, 0)\<close> and \<open>(width, height)\<close>.
\<close>

definition inside_bounds :: "'a QWidget_scheme \<Rightarrow> QMouseEvent \<Rightarrow> bool" where
  "inside_bounds self event =
     (0 \<le> localPos_x event \<and> localPos_x event < of_int (width self)
      \<and> 0 \<le> localPos_y event \<and> localPos_y event < of_int (height self))"

section \<open>The application shell (src/app.py)\<close>

text \<open>What a \<open>QSettings\<close> store holds under a key.\<close>

datatype qvariant = QVFloat rat | QVString string | QVBool bool | QVByteArray string

text \<open>
  The configuration dictionary that \<open>main.py\<close> passes in, one field per key the
  shell reads; \<open>box_width\<close> and \<open>box_height\<close> of the dictionary are prefixed, the
  shell has attributes of the same names. \<open>ui_scale\<close> is absent until
  \<open>init_config\<close> stores it. A dictionary is an association list in insertion order.
\<close>

record config =
  settings_path :: string
  default_settings :: "(string \<times> qvariant) list"
  config_folder_path :: string
  config_subfolders :: "(string \<times> string) list"
  autosave_filename :: string
  config_box_width :: rat
  config_box_height :: rat
  ui_scale :: "rat option"

text \<open>
  The attributes of the \<open>SETS\<close> object that the functions below use. \<open>'b\<close> is the
  type of a build document. \<open>window_geometry\<close> is what \<open>self.window.saveGeometry()\<close>
  returns.
\<close>

record 'b SETS =
  app_dir :: string
  config :: config
  settings :: "string \<rightharpoonup> qvariant"
  box_width :: rat
  box_height :: rat
  build :: 'b
  window_geometry :: string

text \<open>
  What the shell changes outside itself: the files it stores, the folders that exist,
  and the journal of its writes and of the accepted event, in order.
\<close>

datatype 'b effect = SetValue string qvariant | StoreJson string 'b | EventAccept

record 'b world =
  files :: "string \<rightharpoonup> 'b"
  dirs :: "string set"
  journal :: "'b effect list"

text \<open>
  Lines 115 to 117: the loop of \<open>init_settings\<close> over the default settings. A key
  with no stored value reads as \<open>None\<close> and receives its default.
\<close>

fun default_settings_loop ::
  "(string \<times> qvariant) list \<Rightarrow> (string \<rightharpoonup> qvariant) \<Rightarrow> (string \<rightharpoonup> qvariant)" where
  "default_settings_loop [] s = s"
| "default_settings_loop ((setting, v) # rest) s =
     default_settings_loop rest (if s setting = None then s(setting \<mapsto> v) else s)"

text \<open>
  \<open>SETS.init_settings\<close> (lines 109 to 117). \<open>abspath\<close> is \<open>os.path.abspath\<close>;
  \<open>QSettings_load\<close> gives what the settings file at a path holds, nothing when
  there is no such file.
\<close>

definition init_settings ::
  "(string \<Rightarrow> string) \<Rightarrow> (string \<Rightarrow> string \<rightharpoonup> qvariant) \<Rightarrow> 'b SETS \<Rightarrow> 'b SETS" where
  "init_settings abspath QSettings_load self =
     (let settings_path = abspath (app_dir self @ settings_path (config self))
      in self\<lparr>settings :=
                default_settings_loop (default_settings (config self))
                  (QSettings_load settings_path)\<rparr>)"

text \<open>
  \<open>SETS.init_config\<close> (lines 119 to 131). The separator before the autosave file's
  name is the backslash the source writes. \<open>value_float\<close> is the toolkit's typed read
  \<open>settings.value(key, type=float)\<close>. The two products are kept exact: \<open>0.8\<close> is
  the rational \<open>8/10\<close>, and the rounding of the multiplications is not modelled here.
\<close>

definition init_config ::
  "(string \<Rightarrow> string) \<Rightarrow> ((string \<rightharpoonup> qvariant) \<Rightarrow> string \<Rightarrow> rat) \<Rightarrow> 'b SETS \<Rightarrow> 'b SETS" where
  "init_config abspath value_float self =
     (let config_folder = abspath (app_dir self @ config_folder_path (config self));
          c1 = (config self)\<lparr>config_folder_path := config_folder\<rparr>;
          c2 = c1\<lparr>config_subfolders :=
                    map (\<lambda>(folder, path). (folder, config_folder @ path))
                      (config_subfolders c1)\<rparr>;
          c3 = c2\<lparr>autosave_filename :=
                    config_folder @ [CHR 0x5C] @ autosave_filename c2\<rparr>;
          scale = value_float (settings self) ''ui_scale'';
          c4 = c3\<lparr>ui_scale := Some scale\<rparr>
      in self\<lparr>config := c4,
              box_width := config_box_width c4 * scale * (8 / 10),
              box_height := config_box_height c4 * scale * (8 / 10)\<rparr>)"

text \<open>\<open>os.path.exists\<close>: a file or a folder is there.\<close>

definition path_exists :: "'b world \<Rightarrow> string \<Rightarrow> bool" where
  "path_exists wd path = (files wd path \<noteq> None \<or> path \<in> dirs wd)"

text \<open>
  Modelled from the spec: \<open>store_json\<close> of the module \<open>iofunc\<close>, which is not among
  the sources. Given a structure and a destination path, it writes the structure
  there, overwriting any existing file.
\<close>

definition store_json :: "'b \<Rightarrow> string \<Rightarrow> 'b world \<Rightarrow> 'b world" where
  "store_json doc path wd =
     wd\<lparr>files := (files wd)(path \<mapsto> doc), journal := journal wd @ [StoreJson path doc]\<rparr>"

text \<open>\<open>self.config['config_subfolders'][name]\<close>: KeyError when the key is missing.\<close>

definition subfolder :: "config \<Rightarrow> string \<Rightarrow> error + string" where
  "subfolder c name =
     (case map_of (config_subfolders c) name of None \<Rightarrow> Inl KeyError | Some path \<Rightarrow> Inr path)"

text \<open>
  Lines 137 to 142 of \<open>SETS.init_environment\<close>: the six folders, in order.
  \<open>create_folder\<close> belongs to the module \<open>iofunc\<close>, which is not among the sources;
  it is a parameter.
\<close>

definition create_folders ::
  "(string \<Rightarrow> 'b world \<Rightarrow> 'b world) \<Rightarrow> config \<Rightarrow> 'b world \<Rightarrow> error + 'b world" where
  "create_folders create_folder c wd =
     (let w0 = create_folder (config_folder_path c) wd
      in case subfolder c ''library'' of Inl e \<Rightarrow> Inl e | Inr p1 \<Rightarrow>
         (let w1 = create_folder p1 w0
          in case subfolder c ''cache'' of Inl e \<Rightarrow> Inl e | Inr p2 \<Rightarrow>
             (let w2 = create_folder p2 w1
              in case subfolder c ''cargo'' of Inl e \<Rightarrow> Inl e | Inr p3 \<Rightarrow>
                 (let w3 = create_folder p3 w2
                  in case subfolder c ''images'' of Inl e \<Rightarrow> Inl e | Inr p4 \<Rightarrow>
                     (let w4 = create_folder p4 w3
                      in case subfolder c ''ship_images'' of Inl e \<Rightarrow> Inl e | Inr p5 \<Rightarrow>
                           Inr (create_folder p5 w4))))))"

text \<open>
  \<open>SETS.init_environment\<close> (lines 133 to 144). \<open>empty_build\<close> is what
  \<open>self.empty_build()\<close> returns; the function belongs to the module
  \<open>datafunctions\<close>, which is not among the sources.
\<close>

definition init_environment ::
  "(string \<Rightarrow> 'b world \<Rightarrow> 'b world) \<Rightarrow> 'b \<Rightarrow> 'b SETS \<Rightarrow> 'b world \<Rightarrow> error + 'b world" where
  "init_environment create_folder empty_build self wd =
     (case create_folders create_folder (config self) wd of
        Inl e \<Rightarrow> Inl e
      | Inr w5 \<Rightarrow>
          Inr (if \<not> path_exists w5 (autosave_filename (config self))
               then store_json empty_build (autosave_filename (config self)) w5
               else w5))"

text \<open>
  Modelled from the spec: \<open>autosave\<close> of the module \<open>datafunctions\<close>, which is not
  among the sources. It serializes the current build to the configured autosave file
  path.
\<close>

definition autosave :: "'b SETS \<Rightarrow> 'b world \<Rightarrow> 'b world" where
  "autosave self wd = store_json (build self) (autosave_filename (config self)) wd"

text \<open>\<open>self.settings.setValue(key, value)\<close>, noted in the journal.\<close>

definition setValue :: "string \<Rightarrow> qvariant \<Rightarrow> 'b SETS \<times> 'b world \<Rightarrow> 'b SETS \<times> 'b world" where
  "setValue key v sw =
     (case sw of (self, wd) \<Rightarrow>
        (self\<lparr>settings := (settings self)(key \<mapsto> v)\<rparr>,
         wd\<lparr>journal := journal wd @ [SetValue key v]\<rparr>))"

text \<open>\<open>event.accept()\<close>, noted in the journal.\<close>

record QCloseEvent =
  isAccepted :: bool

definition accept :: "QCloseEvent \<times> 'b world \<Rightarrow> QCloseEvent \<times> 'b world" where
  "accept ew =
     (case ew of (event, wd) \<Rightarrow>
        (event\<lparr>isAccepted := True\<rparr>, wd\<lparr>journal := journal wd @ [EventAccept]\<rparr>))"

text \<open>\<open>SETS.main_window_close_callback\<close> (lines 146 to 153).\<close>

definition main_window_close_callback ::
  "'b SETS \<Rightarrow> 'b world \<Rightarrow> QCloseEvent \<Rightarrow> 'b SETS \<times> 'b world \<times> QCloseEvent" where
  "main_window_close_callback self wd event =
     (let geometry = window_geometry self;
          (self1, w1) = setValue ''geometry'' (QVByteArray geometry) (self, wd);
          w2 = autosave self1 w1;
          (event1, w3) = accept (event, w2)
      in (self1, w3, event1))"

section \<open>Examples\<close>

text \<open>
  Concrete inputs for the evaluations below. A Windows 10 host at build 22000, and a
  Linux host with no display and neither Pillow nor numpy installed.
\<close>

definition windows_host :: host where
  "windows_host =
     \<lparr>sys_version = ''3.12.1'', platform_system = ''Windows'', platform_release = ''10'',
      getwindowsversion_build = Inr 22000, tk_patchlevel = Inr ''8.6.13'',
      tk_Tk = Inr \<lparr>winfo_screenwidth = 1920, winfo_screenheight = 1080,
                      winfo_fpixels = 96\<rparr>,
      os_release_rows = Inl OSError, PIL_version = Inr ''10.2.0'',
      numpy_version = Inr ''1.26.4''\<rparr>"

definition headless_host :: host where
  "headless_host =
     \<lparr>sys_version = ''3.12.1'', platform_system = ''Linux'', platform_release = ''6.8.0'',
      getwindowsversion_build = Inl AttributeError, tk_patchlevel = Inr ''8.6.13'',
      tk_Tk = Inl TclError, os_release_rows = Inr [[''NAME'', ''Debian'']],
      PIL_version = Inl ImportError, numpy_version = Inl ImportError\<rparr>"

text \<open>
  A 100 by 50 image in a ship-image widget that is 200 wide and 60 high, a 7 by 7
  image in one that is 61 wide, and an image scaling that truncates the width it
  receives to an integer and keeps the image's proportions.
\<close>

definition ship_example :: ImageLabel where
  "ship_example =
     \<lparr>width = 200, height = 60, minimumHeight = 10, maximumHeight = 16777215,
      self_w = 100, self_h = 50, self_p = Bitmap 100 50\<rparr>"

definition ship_small_example :: ImageLabel where
  "ship_small_example =
     \<lparr>width = 61, height = 30, minimumHeight = 10, maximumHeight = 16777215,
      self_w = 7, self_h = 7, self_p = Bitmap 7 7\<rparr>"

definition scaledToWidth_example :: "QImage \<Rightarrow> rat \<Rightarrow> QImage" where
  "scaledToWidth_example p w =
     Bitmap (py_int w)
       (py_int (of_int (py_int w * image_height p) / of_int (image_width p)))"

text \<open>
  The factor of the specification's sentence for a box \<open>(Cw, Ch)\<close> and an image
  \<open>(W, H)\<close>: \<open>min(Cw/W, Ch/H)\<close>.
\<close>

definition fit_scale_factor :: "int \<Rightarrow> int \<Rightarrow> int \<Rightarrow> int \<Rightarrow> rat" where
  "fit_scale_factor Cw Ch W H = min (of_int Cw / of_int W) (of_int Ch / of_int H)"

text \<open>The last operation of a paint event, when it drew anything.\<close>

definition last_op :: "error + ImageLabel \<times> paint_op list \<Rightarrow> paint_op option" where
  "last_op r =
     (case r of
        Inl e \<Rightarrow> None
      | Inr (self, ops) \<Rightarrow> (if ops = [] then None else Some (last ops)))"

text \<open>A fresh widget, and the banner's file as the toolkit loads it.\<close>

definition base_widget :: QWidget where
  "base_widget = \<lparr>width = 640, height = 480, minimumHeight = 0, maximumHeight = 16777215\<rparr>"

definition QImage_load_example :: "string \<Rightarrow> QImage" where
  "QImage_load_example path = (if path = ''sets_banner.png'' then Bitmap 2880 126 else NullImage)"

text \<open>An item button of the default size, and a left-button release 5 pixels to its left.\<close>

definition item_button :: QWidget where
  "item_button = \<lparr>width = 49, height = 64, minimumHeight = 64, maximumHeight = 64\<rparr>"

definition release_left_of_button :: QMouseEvent where
  "release_left_of_button =
     \<lparr>button = LeftButton, localPos_x = - 5, localPos_y = 10, accepted = False\<rparr>"

definition release_on_button :: "MouseButton \<Rightarrow> QMouseEvent" where
  "release_on_button b = \<lparr>button = b, localPos_x = 20, localPos_y = 10, accepted = False\<rparr>"

text \<open>A shell whose build documents are strings, on a host whose paths use slashes.\<close>

definition sets_example :: "string SETS" where
  "sets_example =
     \<lparr>app_dir = ''/opt/sets'',
      config =
        \<lparr>settings_path = ''/.settings.ini'',
         default_settings = [(''ui_scale'', QVFloat 1), (''geometry'', QVByteArray [])],
         config_folder_path = ''/.config'',
         config_subfolders =
           [(''library'', ''/library''), (''cache'', ''/cache''), (''cargo'', ''/cargo''),
            (''images'', ''/images''), (''ship_images'', ''/ship_images'')],
         autosave_filename = ''autosave.json'',
         config_box_width = 49, config_box_height = 64, ui_scale = None\<rparr>,
      settings = [''ui_scale'' \<mapsto> QVFloat 1],
      box_width = 0, box_height = 0, build = ''{build}'', window_geometry = ''geometry-bytes''\<rparr>"

definition value_float_example :: "(string \<rightharpoonup> qvariant) \<Rightarrow> string \<Rightarrow> rat" where
  "value_float_example s key = (case s key of Some (QVFloat r) \<Rightarrow> r | _ \<Rightarrow> 0)"

definition world_example :: "string world" where
  "world_example = \<lparr>files = Map.empty, dirs = {}, journal = []\<rparr>"

text \<open>
  Modelled from the spec: \<open>create_folder\<close> of the module \<open>iofunc\<close>, which is not
  among the sources. Given a path, it ensures that the directory exists. The theorems
  take the function as a parameter; this instance serves the examples.
\<close>

definition create_folder_example :: "string \<Rightarrow> 'b world \<Rightarrow> 'b world" where
  "create_folder_example path wd = wd\<lparr>dirs := insert path (dirs wd)\<rparr>"

text \<open>
  \<open>os.path.dirname\<close> on a host whose path separator is the slash: the path up to its
  last slash, without trailing slashes unless it consists of slashes only.
\<close>

definition posix_dirname :: "string \<Rightarrow> string" where
  "posix_dirname path =
     (let head = rev (dropWhile (\<lambda>c. c \<noteq> CHR ''/'') (rev path))
      in if head \<noteq> [] \<and> filter (\<lambda>c. c \<noteq> CHR ''/'') head \<noteq> []
         then rev (dropWhile (\<lambda>c. c = CHR ''/'') (rev head))
         else head)"

text \<open>
  The example shell after \<open>init_config\<close>, and the world once its six folders exist.
\<close>

definition configured_example :: "string SETS" where
  "configured_example = init_config (\<lambda>path. path) value_float_example sets_example"

definition folders_world_example :: "string world" where
  "folders_world_example =
     \<lparr>files = Map.empty,
      dirs = {''/opt/sets/.config/ship_images'', ''/opt/sets/.config/images'',
              ''/opt/sets/.config/cargo'', ''/opt/sets/.config/cache'',
              ''/opt/sets/.config/library'', ''/opt/sets/.config''},
      journal = []\<rparr>"

section \<open>Properties of the diagnostics snapshot\<close>

lemma report_lines:
  "report repr_float h =
     [''     python: '' @ python_version h,
      ''         OS: '' @ os_text repr_float h,
      '' screen-dpi: '' @ py_str repr_float (tk_screen_geometry h) @ '' (''
         @ py_str repr_float (dpi h) @ ''dpi x'' @ py_str repr_float (factor h) @ '')'',
      ''    modules: (tkinter '' @ py_str repr_float (tkinter_version h)
         @ '') (Pillow '' @ PIL_version_probe h @ '') (numpy '' @ numpy_version_probe h
         @ '') '']"
  by (simp add: report_def snapshot_def modules_def rjust_def)

text \<open>
  The release the script reports is, on every host, the string that
  \<open>platform.release()\<close> returned: the comparison of that string with the integer 10
  is never true, so the override to 11 never happens.
\<close>

theorem release_never_overridden: "release_val h = PyStr (platform_release h)"
  by (cases "getwindowsversion_build h")
    (simp_all add: release_val_def release_build_def release_build_try_def try_except_def)

text \<open>
  C1: with family "Windows", release "10" and build 22000 the computed release should
  be "11". On that host the script keeps the release "10" and prints
  "Windows 10 (22000)".
\<close>

theorem release_windows_10_build_22000:
  "release_val windows_host = PyStr ''10''
   \<and> release_val windows_host \<noteq> PyInt 11
   \<and> build_val windows_host = PyInt 22000
   \<and> os_text repr_float windows_host = ''Windows 10 (22000)''"
proof -
  have rb: "release_build windows_host = (PyStr ''10'', PyInt 22000)"
    by (simp add: release_build_def release_build_try_def windows_host_def try_except_def)
  have d: "distribution windows_host = []"
    by (simp add: distribution_def distribution_try_def windows_host_def try_except_def)
  have n: "str_int 22000 = ''22000''"
    apply (simp add: str_int_def)
    apply code_simp
    done
  have s: "platform_system windows_host = ''Windows''"
    by (simp add: windows_host_def)
  show ?thesis
    by (simp add: os_text_def release_val_def build_val_def rb d n s)
qed

text \<open>
  C4, as stated, fails: when the display cannot be opened, the screen geometry, a
  display probe, is the string "fail" and not the empty string.
\<close>

theorem screen_geometry_counterexample:
  "tkinter_try headless_host = Inl TclError
   \<and> tk_screen_geometry headless_host \<noteq> PyStr ''''"
  by (simp add: tkinter_try_def tk_screen_geometry_def tkinter_probe_def try_except_def
      headless_host_def)

text \<open>
  C4, amended: every guarded block is fault-tolerant. When the tkinter block raises,
  the tkinter version and the screen geometry are "fail" and the dpi and the factor
  are empty strings; when the distribution block raises, the distribution is the empty
  string; when the Windows build cannot be read, the build is the empty string; when
  the Pillow or numpy import raises, its version is "fail". On every host the report
  has its three fact lines and its modules line.
\<close>

theorem probes_fault_tolerant:
  "(tkinter_try h = Inl e1 \<longrightarrow>
      tkinter_version h = PyStr ''fail'' \<and> tk_screen_geometry h = PyStr ''fail''
      \<and> dpi h = PyStr '''' \<and> factor h = PyStr '''')
   \<and> (distribution_try h = Inl e2 \<longrightarrow> distribution h = '''')
   \<and> (release_build_try h = Inl e3 \<longrightarrow> build_val h = PyStr '''')
   \<and> (PIL_version h = Inl e4 \<longrightarrow> PIL_version_probe h = ''fail'')
   \<and> (numpy_version h = Inl e5 \<longrightarrow> numpy_version_probe h = ''fail'')
   \<and> length (report repr_float h) = 4
   \<and> map (take 13) (report repr_float h)
       = [''     python: '', ''         OS: '', '' screen-dpi: '', ''    modules: '']"
  by (simp add: tkinter_version_def tk_screen_geometry_def dpi_def factor_def
      tkinter_probe_def distribution_def build_val_def release_build_def
      PIL_version_probe_def numpy_version_probe_def try_except_def report_lines)

theorem probes_fault_tolerant_witness:
  "tkinter_try headless_host = Inl TclError
   \<and> tkinter_version headless_host = PyStr ''fail''
   \<and> tk_screen_geometry headless_host = PyStr ''fail''
   \<and> dpi headless_host = PyStr '''' \<and> factor headless_host = PyStr ''''
   \<and> distribution_try headless_host = Inl KeyError
   \<and> distribution headless_host = ''''
   \<and> release_build_try headless_host = Inl AttributeError
   \<and> build_val headless_host = PyStr ''''
   \<and> PIL_version_probe headless_host = ''fail''
   \<and> numpy_version_probe headless_host = ''fail''
   \<and> length (report (\<lambda>r. ''0.0'') headless_host) = 4"
proof -
  have t: "tkinter_try headless_host = Inl TclError"
    by (simp add: tkinter_try_def headless_host_def)
  have d: "distribution_try headless_host = Inl KeyError"
    by (simp add: distribution_try_def headless_host_def)
  have r: "release_build_try headless_host = Inl AttributeError"
    by (simp add: release_build_try_def headless_host_def)
  have p: "PIL_version headless_host = Inl ImportError"
    and n: "numpy_version headless_host = Inl ImportError"
    by (simp_all add: headless_host_def)
  show ?thesis
    using probes_fault_tolerant
      [of headless_host TclError KeyError AttributeError ImportError ImportError
        "\<lambda>r. ''0.0''"]
    by (simp add: t d r p n)
qed

text \<open>
  The report of the headless host, line by line.
\<close>

lemma report_headless_host:
  "report repr_float headless_host =
     [''     python: 3.12.1'',
      ''         OS: Linux 6.8.0'',
      '' screen-dpi: fail (dpi x)'',
      ''    modules: (tkinter fail) (Pillow fail) (numpy fail) '']"
proof -
  have t: "tkinter_probe headless_host = (PyStr ''fail'', PyStr ''fail'', PyStr '''', PyStr '''')"
    by (simp add: tkinter_probe_def tkinter_try_def headless_host_def try_except_def)
  have d: "distribution headless_host = []"
    by (simp add: distribution_def distribution_try_def headless_host_def try_except_def)
  have rb: "release_build headless_host = (PyStr ''6.8.0'', PyStr '''')"
    by (simp add: release_build_def release_build_try_def headless_host_def try_except_def)
  have o: "os_text repr_float headless_host = ''Linux 6.8.0''"
    by (simp add: os_text_def release_val_def build_val_def rb d) (simp add: headless_host_def)
  have v: "python_version headless_host = ''3.12.1''"
    by (simp add: python_version_def headless_host_def)
  have m: "PIL_version_probe headless_host = ''fail''" "numpy_version_probe headless_host = ''fail''"
    by (simp_all add: PIL_version_probe_def numpy_version_probe_def headless_host_def try_except_def)
  show ?thesis
    by (simp add: report_lines o v m tkinter_version_def tk_screen_geometry_def dpi_def
        factor_def t)
qed

section \<open>Properties of the widgets\<close>

lemma floor_rat_numeral_div:
  "\<lfloor>numeral a / numeral b :: rat\<rfloor> = numeral a div numeral b"
  using floor_divide_of_int_eq [of "numeral a" "numeral b", where ?'a = rat] by simp

text \<open>Small integers are floats, and rounding leaves them as they are.\<close>

lemma fl_small:
  "fl 0 = 0" "fl 2 = 2" "fl 7 = 7" "fl 50 = 50" "fl 61 = 61" "fl 100 = 100" "fl 200 = 200"
  by (simp_all add: fl_def pow2_def round_half_even_def Let_def floor_rat_numeral_div)

text \<open>
  The float nearest to \<open>61/7\<close> is \<open>8.714285714285714\<close>; its product with 7, rounded,
  is \<open>60.99999999999999\<close>, one unit in the last place below 61.
\<close>

lemma fl_61_7: "fl (61 / 7) = 4905706736957147 / 562949953421312"
proof -
  have e: "binary_exponent (61 / 7) 0 = 3"
    by simp
  show ?thesis
    by (simp add: fl_def pow2_def round_half_even_def e Let_def floor_rat_numeral_div)
qed

lemma fl_7_times: "fl (7 * (4905706736957147 / 562949953421312)) = 61 - 1 / 2 ^ 47"
proof -
  have e: "binary_exponent (34339947158700029 / 562949953421312) 0 = 5"
    by simp
  show ?thesis
    by (simp add: fl_def pow2_def round_half_even_def e Let_def floor_rat_numeral_div)
qed

lemma fl_below_61: "fl (61 - 1 / 2 ^ 47 - 61) = - (1 / 2 ^ 47)"
proof -
  have e: "binary_exponent (1 / 140737488355328) 0 = - 47"
    by simp
  show ?thesis
    by (simp add: fl_def pow2_def round_half_even_def e Let_def floor_rat_numeral_div)
qed

lemma ImageLabel_paint:
  assumes "self_p self = Bitmap W H" "self_w self = W" "self_h self = H" "0 < W"
  shows "ImageLabel_paintEvent self =
           Inr (setFixedHeight (py_int (fl (of_int (width self * H) / of_int W))) self,
                [DrawImageRect \<lparr>rect_x = 0, rect_y = 0, rect_w = width self,
                   rect_h = py_int (fl (of_int (width self * H) / of_int W))\<rparr>
                   (Bitmap W H)])"
  using assms by (simp add: ImageLabel_paintEvent_def Let_def)

lemma ship_example_ImageLabel_paint:
  "ImageLabel_paintEvent ship_example =
     Inr (setFixedHeight 100 ship_example,
          [DrawImageRect \<lparr>rect_x = 0, rect_y = 0, rect_w = 200, rect_h = 100\<rparr>
             (Bitmap 100 50)])"
  using ImageLabel_paint [of ship_example 100 50]
  by (simp add: ship_example_def fl_small py_int_def)

lemma ship_example_paint:
  "ShipImage_paintEvent scaledToWidth_example ship_example =
     Inr (setFixedHeight 100 ship_example,
          [DrawImageRect \<lparr>rect_x = 0, rect_y = 0, rect_w = 200, rect_h = 100\<rparr>
             (Bitmap 100 50),
           DrawImageAt 0 0 (Bitmap 200 100)])"
proof -
  have s: "scale_factor (setFixedHeight 100 ship_example) = 2"
    by (simp add: scale_factor_def setFixedHeight_def ship_example_def fl_small)
  have p: "self_p (setFixedHeight 100 ship_example) = Bitmap 100 50"
    "self_w (setFixedHeight 100 ship_example) = 100"
    "self_h (setFixedHeight 100 ship_example) = 50"
    "width (setFixedHeight 100 ship_example) = 200"
    "height (setFixedHeight 100 ship_example) = 100"
    by (simp_all add: setFixedHeight_def ship_example_def)
  have n: "scaledToWidth_example (Bitmap 100 50) 200 = Bitmap 200 100"
    by (simp add: scaledToWidth_example_def py_int_def)
  have f: "setFixedHeight 100 (setFixedHeight 100 ship_example)
      = setFixedHeight 100 ship_example"
    by (simp add: setFixedHeight_def)
  show ?thesis
    by (simp add: ShipImage_paintEvent_def ship_example_ImageLabel_paint s p n f fl_small
        Let_def)
qed

text \<open>
  C5: a ship image in a box \<open>(Cw, Ch)\<close> should scale its image by
  \<open>min(Cw/W, Ch/H)\<close> and centre it in the box. In a box 200 wide and 60 high, a 100
  by 50 image would be scaled by \<open>6/5\<close> to 120 by 60 and drawn at \<open>(40, 0)\<close>. The
  event draws the image stretched to 200 by 100, then draws it again scaled by 2 at
  \<open>(0, 0)\<close>, and fixes the height to 100: the inherited paint event has already set
  the height to 100 when the box is read.
\<close>

theorem ShipImage_ignores_box_height:
  "ShipImage_paintEvent scaledToWidth_example ship_example =
     Inr (setFixedHeight 100 ship_example,
          [DrawImageRect \<lparr>rect_x = 0, rect_y = 0, rect_w = 200, rect_h = 100\<rparr>
             (Bitmap 100 50),
           DrawImageAt 0 0 (Bitmap 200 100)])
   \<and> fit_scale_factor 200 60 100 50 = 6 / 5
   \<and> last_op (ShipImage_paintEvent scaledToWidth_example ship_example)
     \<noteq> Some (DrawImageAt
               (of_int \<lfloor>\<bar>100 * fit_scale_factor 200 60 100 50 - 200\<bar> / 2\<rfloor>)
               (of_int \<lfloor>\<bar>50 * fit_scale_factor 200 60 100 50 - 60\<bar> / 2\<rfloor>)
               (scaledToWidth_example (Bitmap 100 50)
                  (100 * fit_scale_factor 200 60 100 50)))"
proof -
  have f: "fit_scale_factor 200 60 100 50 = 6 / 5"
    by (simp add: fit_scale_factor_def)
  have n: "scaledToWidth_example (Bitmap 100 50) 120 = Bitmap 120 60"
    by (simp add: scaledToWidth_example_def py_int_def)
  show ?thesis
    by (simp add: ship_example_paint f n last_op_def)
qed

text \<open>
  The height of the box before the event never matters to a ship image with an image:
  the event gives the same drawing and the same widget for every such height.
\<close>

theorem ShipImage_height_irrelevant:
  assumes "\<not> isNull (self_p self)"
  shows "ShipImage_paintEvent scaledToWidth (self\<lparr>height := ch\<rparr>)
           = ShipImage_paintEvent scaledToWidth self"
  using assms
  by (simp add: ShipImage_paintEvent_def ImageLabel_paintEvent_def setFixedHeight_def
      scale_factor_def Let_def)

theorem ShipImage_height_irrelevant_witness:
  "\<not> isNull (self_p ship_example)
   \<and> ShipImage_paintEvent scaledToWidth_example (ship_example\<lparr>height := 500\<rparr>) =
     Inr (setFixedHeight 100 ship_example,
          [DrawImageRect \<lparr>rect_x = 0, rect_y = 0, rect_w = 200, rect_h = 100\<rparr>
             (Bitmap 100 50),
           DrawImageAt 0 0 (Bitmap 200 100)])"
proof -
  have "\<not> isNull (self_p ship_example)"
    by (simp add: ship_example_def)
  then show ?thesis
    using ShipImage_height_irrelevant [of ship_example scaledToWidth_example 500]
      ship_example_paint
    by simp
qed

text \<open>
  The rounding of the float operations shows in the drawing: for a 7 by 7 image in a
  widget 61 wide, the inherited event fixes the height to 61, the scale factor is the
  float nearest to \<open>61/7\<close>, and the width handed to the image scaling is
  \<open>60.99999999999999\<close>, not 61; a scaling that truncates it draws a 60 by 60 image
  and the height is fixed to 60.
\<close>

theorem ShipImage_small_rounding:
  "ShipImage_paintEvent scaledToWidth_example ship_small_example =
     Inr (setFixedHeight 60 ship_small_example,
          [DrawImageRect \<lparr>rect_x = 0, rect_y = 0, rect_w = 61, rect_h = 61\<rparr> (Bitmap 7 7),
           DrawImageAt 0 0 (Bitmap 60 60)])
   \<and> fl (fl 7 * scale_factor (setFixedHeight 61 ship_small_example)) = 61 - 1 / 2 ^ 47"
proof -
  have i: "ImageLabel_paintEvent ship_small_example =
      Inr (setFixedHeight 61 ship_small_example,
           [DrawImageRect \<lparr>rect_x = 0, rect_y = 0, rect_w = 61, rect_h = 61\<rparr>
              (Bitmap 7 7)])"
    using ImageLabel_paint [of ship_small_example 7 7]
    by (simp add: ship_small_example_def fl_small py_int_def)
  have s: "scale_factor (setFixedHeight 61 ship_small_example)
      = 4905706736957147 / 562949953421312"
    by (simp add: scale_factor_def setFixedHeight_def ship_small_example_def fl_61_7)
  have w: "fl (fl 7 * (4905706736957147 / 562949953421312)) = 61 - 1 / 2 ^ 47"
    by (simp only: fl_small fl_7_times)
  have p: "self_p (setFixedHeight 61 ship_small_example) = Bitmap 7 7"
    "self_w (setFixedHeight 61 ship_small_example) = 7"
    "self_h (setFixedHeight 61 ship_small_example) = 7"
    "width (setFixedHeight 61 ship_small_example) = 61"
    "height (setFixedHeight 61 ship_small_example) = 61"
    by (simp_all add: setFixedHeight_def ship_small_example_def)
  have t: "py_int (61 - 1 / 2 ^ 47) = 60"
    by (simp add: py_int_def floor_rat_numeral_div)
  have n: "scaledToWidth_example (Bitmap 7 7) (61 - 1 / 2 ^ 47) = Bitmap 60 60"
    unfolding scaledToWidth_example_def t by (simp add: py_int_def)
  have d: "fl (61 - 1 / 2 ^ 47 - fl 61) = - (1 / 2 ^ 47)"
    by (simp only: fl_small fl_below_61)
  have o: "of_int \<lfloor>\<bar>- (1 / 2 ^ 47 :: rat)\<bar> / 2\<rfloor> = (0 :: rat)"
    by (simp add: floor_eq_iff)
  have f: "setFixedHeight 60 (setFixedHeight 61 ship_small_example)
      = setFixedHeight 60 ship_small_example"
    by (simp add: setFixedHeight_def)
  have "ShipImage_paintEvent scaledToWidth_example ship_small_example =
     Inr (setFixedHeight 60 ship_small_example,
          [DrawImageRect \<lparr>rect_x = 0, rect_y = 0, rect_w = 61, rect_h = 61\<rparr> (Bitmap 7 7),
           DrawImageAt 0 0 (Bitmap 60 60)])"
    unfolding ShipImage_paintEvent_def i
    by (simp only: sum.case prod.case p Let_def s w n d o f isNull.simps image_height.simps
        of_int_numeral) simp
  moreover have "fl (fl 7 * scale_factor (setFixedHeight 61 ship_small_example))
      = 61 - 1 / 2 ^ 47"
    by (simp only: s w)
  ultimately show ?thesis by blast
qed

text \<open>
  C9: an image label constructed with a path and the default aspect ratio \<open>(0, 0)\<close>
  stores 0 for both \<open>_w\<close> and \<open>_h\<close>, whatever the image's size, so its paint
  event, at any widget size, raises ZeroDivisionError once the image at the path is not
  null. The constructor stores the aspect ratio it is given and never the image's size;
  \<open>set_image\<close> stores the new image together with its width and height.
\<close>

theorem ImageLabel_default_aspect_divides_by_zero:
  "self_w (ImageLabel_init QImage_load base path (0, 0)) = 0
   \<and> self_h (ImageLabel_init QImage_load base path (0, 0)) = 0
   \<and> (path \<noteq> [] \<and> \<not> isNull (QImage_load path) \<longrightarrow>
        ImageLabel_paintEvent
          ((ImageLabel_init QImage_load base path (0, 0))\<lparr>width := cw, height := ch\<rparr>)
        = Inl ZeroDivisionError)
   \<and> self_w (ImageLabel_init QImage_load base path (a, b)) = a
   \<and> self_h (ImageLabel_init QImage_load base path (a, b)) = b
   \<and> self_p (set_image p self) = p
   \<and> self_w (set_image p self) = image_width p
   \<and> self_h (set_image p self) = image_height p"
  by (simp add: ImageLabel_init_def setMinimumHeight_def QWidget.extend_def set_image_def
      ImageLabel_paintEvent_def)

theorem ImageLabel_default_aspect_witness:
  "''sets_banner.png'' \<noteq> [] \<and> \<not> isNull (QImage_load_example ''sets_banner.png'')
   \<and> ImageLabel_paintEvent
        ((ImageLabel_init QImage_load_example base_widget ''sets_banner.png'' (0, 0))
           \<lparr>width := 1280, height := 56\<rparr>)
      = Inl ZeroDivisionError
   \<and> self_w (set_image (Bitmap 2880 126)
        (ImageLabel_init QImage_load_example base_widget ''sets_banner.png'' (0, 0))) = 2880"
  using ImageLabel_default_aspect_divides_by_zero
    [where QImage_load = QImage_load_example and base = base_widget
      and path = "''sets_banner.png''" and cw = 1280 and ch = 56 and a = 0 and b = 0
      and p = "Bitmap 2880 126"
      and self = "ImageLabel_init QImage_load_example base_widget ''sets_banner.png'' (0, 0)"]
  by (simp add: QImage_load_example_def)

text \<open>
  After \<open>set_image\<close> with an image that is not null and has a positive width, the
  paint event raises nothing: it draws the image at the widget's width and at the
  height \<open>int(width * H / W)\<close>.
\<close>

theorem set_image_then_paint:
  assumes "0 < W"
  shows "ImageLabel_paintEvent (set_image (Bitmap W H) self) =
           Inr (setFixedHeight (py_int (fl (of_int (width self * H) / of_int W)))
                  (set_image (Bitmap W H) self),
                [DrawImageRect
                   \<lparr>rect_x = 0, rect_y = 0, rect_w = width self,
                    rect_h = py_int (fl (of_int (width self * H) / of_int W))\<rparr>
                   (Bitmap W H)])"
  using ImageLabel_paint [of "set_image (Bitmap W H) self" W H] assms
  by (simp add: set_image_def)

theorem set_image_then_paint_witness:
  "ImageLabel_paintEvent (set_image (Bitmap 400 100) ship_example) =
     Inr (setFixedHeight 50 (set_image (Bitmap 400 100) ship_example),
          [DrawImageRect \<lparr>rect_x = 0, rect_y = 0, rect_w = 200, rect_h = 50\<rparr>
             (Bitmap 400 100)])"
  using set_image_then_paint [of 400 100 ship_example]
  by (simp add: ship_example_def py_int_def fl_small)

text \<open>
  C8: the constructor of the item button passes to its superclass the extra positional
  arguments followed by the names of the extra keyword arguments, all of them
  positionally, and no keyword argument. That equals the plain call with the same
  arguments exactly when there is no extra keyword argument.
\<close>

theorem ItemButton_kwargs_positional:
  "ItemButton_super_init args kwargs = (args @ map (\<lambda>kv. Str (fst kv)) kwargs, [])
   \<and> (ItemButton_super_init args kwargs = QFrame_call args kwargs \<longleftrightarrow> kwargs = [])"
  by (auto simp: ItemButton_super_init_def QFrame_call_def case_prod_beta)

theorem ItemButton_kwargs_positional_witness:
  "ItemButton_super_init [Obj (1::nat)] [(''parent'', Obj 2), (''objectName'', Str ''slot'')]
     = ([Obj 1, Str ''parent'', Str ''objectName''], [])
   \<and> ItemButton_super_init [Obj (1::nat)] [] = QFrame_call [Obj 1] []"
  using ItemButton_kwargs_positional
    [of "[Obj (1::nat)]" "[(''parent'', Obj 2), (''objectName'', Str ''slot'')]"]
    ItemButton_kwargs_positional [of "[Obj (1::nat)]" "[]"]
  by (simp add: QFrame_call_def)

text \<open>
  C2: a release outside the button's bounds should emit no signal. A left-button
  release 5 pixels to the left of a 49 by 64 button is outside its bounds, and the
  event emits "clicked": the test looks at the right and the lower edge only.
\<close>

theorem release_outside_emits_clicked:
  "\<not> inside_bounds item_button release_left_of_button
   \<and> fst (mouseReleaseEvent item_button release_left_of_button) = [clicked]"
  by (simp add: inside_bounds_def mouseReleaseEvent_def item_button_def
      release_left_of_button_def)

text \<open>
  What holds of the click discrimination: inside the bounds a left-button release
  emits exactly "clicked" and a right-button release exactly "rightclicked"; a release
  at or beyond the right or the lower edge emits nothing, and so does any other button;
  the event is accepted in every case.
\<close>

theorem click_discrimination:
  "(inside_bounds self event \<and> button event = LeftButton \<longrightarrow>
      fst (mouseReleaseEvent self event) = [clicked])
   \<and> (inside_bounds self event \<and> button event = RightButton \<longrightarrow>
      fst (mouseReleaseEvent self event) = [rightclicked])
   \<and> (of_int (width self) \<le> localPos_x event \<or> of_int (height self) \<le> localPos_y event
      \<longrightarrow> fst (mouseReleaseEvent self event) = [])
   \<and> (button event \<noteq> LeftButton \<and> button event \<noteq> RightButton \<longrightarrow>
      fst (mouseReleaseEvent self event) = [])
   \<and> accepted (snd (mouseReleaseEvent self event))"
  by (auto simp: inside_bounds_def mouseReleaseEvent_def)

theorem click_discrimination_witness:
  "inside_bounds item_button (release_on_button LeftButton)
   \<and> fst (mouseReleaseEvent item_button (release_on_button LeftButton)) = [clicked]
   \<and> fst (mouseReleaseEvent item_button (release_on_button RightButton)) = [rightclicked]
   \<and> fst (mouseReleaseEvent item_button (release_on_button MiddleButton)) = []
   \<and> fst (mouseReleaseEvent item_button
        ((release_on_button LeftButton)\<lparr>localPos_x := 49\<rparr>)) = []"
  using click_discrimination [of item_button "release_on_button LeftButton"]
    click_discrimination [of item_button "release_on_button RightButton"]
    click_discrimination [of item_button "release_on_button MiddleButton"]
    click_discrimination [of item_button "(release_on_button LeftButton)\<lparr>localPos_x := 49\<rparr>"]
  by (simp add: inside_bounds_def item_button_def release_on_button_def)

section \<open>Properties of the application shell\<close>

lemma default_settings_loop_keeps:
  "s k = Some v \<Longrightarrow> default_settings_loop ds s k = Some v"
proof (induction ds arbitrary: s)
  case Nil
  then show ?case by simp
next
  case (Cons d ds)
  obtain setting v' where d: "d = (setting, v')" by (cases d)
  have "default_settings_loop ds (if s setting = None then s(setting \<mapsto> v') else s) k = Some v"
    using Cons.prems by (intro Cons.IH) auto
  then show ?case unfolding d by (simp only: default_settings_loop.simps)
qed

lemma default_settings_loop_defaults:
  "s k = None \<Longrightarrow> map_of ds k = Some v \<Longrightarrow> default_settings_loop ds s k = Some v"
proof (induction ds arbitrary: s)
  case Nil
  then show ?case by simp
next
  case (Cons d ds)
  obtain setting v' where d: "d = (setting, v')" by (cases d)
  let ?s' = "if s setting = None then s(setting \<mapsto> v') else s"
  have "default_settings_loop ds ?s' k = Some v"
  proof (cases "k = setting")
    case True
    with Cons.prems d have "?s' k = Some v" by simp
    then show ?thesis by (rule default_settings_loop_keeps)
  next
    case False
    with Cons.prems d have "?s' k = None" and "map_of ds k = Some v" by auto
    then show ?thesis by (rule Cons.IH)
  qed
  then show ?case unfolding d by (simp only: default_settings_loop.simps)
qed

text \<open>
  C6: when there is no settings file (the store loads empty), every key of the default
  settings is in the settings after \<open>init_settings\<close> with its default value; a key
  that the stored settings hold, such as a changed \<open>ui_scale\<close>, keeps its stored
  value.
\<close>

theorem init_settings_defaults_and_stored:
  "(QSettings_load (abspath (app_dir self @ settings_path (config self))) = Map.empty
      \<and> map_of (default_settings (config self)) k = Some v
      \<longrightarrow> settings (init_settings abspath QSettings_load self) k = Some v)
   \<and> (QSettings_load (abspath (app_dir self @ settings_path (config self))) k' = Some v'
      \<longrightarrow> settings (init_settings abspath QSettings_load self) k' = Some v')"
  by (simp add: init_settings_def default_settings_loop_keeps default_settings_loop_defaults)

theorem init_settings_witness:
  "settings (init_settings (\<lambda>path. path) (\<lambda>path. Map.empty) sets_example) ''ui_scale''
     = Some (QVFloat 1)
   \<and> settings (init_settings (\<lambda>path. path) (\<lambda>path. Map.empty) sets_example) ''geometry''
     = Some (QVByteArray [])
   \<and> settings (init_settings (\<lambda>path. path) (\<lambda>path. [''ui_scale'' \<mapsto> QVFloat (5 / 4)])
        sets_example) ''ui_scale''
     = Some (QVFloat (5 / 4))"
  using init_settings_defaults_and_stored
      [where abspath = "\<lambda>path. path" and QSettings_load = "\<lambda>path. Map.empty"
        and self = sets_example and k = "''ui_scale''" and v = "QVFloat 1"]
    init_settings_defaults_and_stored
      [where abspath = "\<lambda>path. path" and QSettings_load = "\<lambda>path. Map.empty"
        and self = sets_example and k = "''geometry''" and v = "QVByteArray []"]
    init_settings_defaults_and_stored
      [where abspath = "\<lambda>path. path"
        and QSettings_load = "\<lambda>path. [''ui_scale'' \<mapsto> QVFloat (5 / 4)]"
        and self = sets_example and k' = "''ui_scale''" and v' = "QVFloat (5 / 4)"]
  by (simp add: sets_example_def)

text \<open>
  The keys of the settings after \<open>init_settings\<close> are the stored keys and the keys
  of the default settings.
\<close>

theorem init_settings_keys:
  "dom (settings (init_settings abspath QSettings_load self))
     = dom (QSettings_load (abspath (app_dir self @ settings_path (config self))))
       \<union> fst ` set (default_settings (config self))"
proof -
  have "dom (default_settings_loop ds s) = dom s \<union> fst ` set ds" for ds s
    by (induction ds s rule: default_settings_loop.induct) (auto split: if_splits)
  then show ?thesis by (simp add: init_settings_def)
qed

text \<open>
  C10: the shell's box width and box height are the configured base values times the
  \<open>ui_scale\<close> setting times 0.8, for every configuration and scale; unless that
  product is 0, they differ from the base value times the scale alone.
\<close>

theorem box_scaled_by_ui_scale_and_four_fifths:
  "box_width (init_config abspath value_float self)
     = config_box_width (config self) * value_float (settings self) ''ui_scale'' * (8 / 10)
   \<and> box_height (init_config abspath value_float self)
     = config_box_height (config self) * value_float (settings self) ''ui_scale'' * (8 / 10)
   \<and> ui_scale (config (init_config abspath value_float self))
     = Some (value_float (settings self) ''ui_scale'')
   \<and> (config_box_width (config self) * value_float (settings self) ''ui_scale'' \<noteq> 0 \<longrightarrow>
        box_width (init_config abspath value_float self)
          \<noteq> config_box_width (config self) * value_float (settings self) ''ui_scale'')
   \<and> (config_box_height (config self) * value_float (settings self) ''ui_scale'' \<noteq> 0 \<longrightarrow>
        box_height (init_config abspath value_float self)
          \<noteq> config_box_height (config self) * value_float (settings self) ''ui_scale'')"
  by (simp add: init_config_def Let_def)

theorem box_scaled_witness:
  "box_width configured_example = 196 / 5
   \<and> box_height configured_example = 256 / 5
   \<and> box_width configured_example \<noteq> 49
   \<and> box_height configured_example \<noteq> 64"
  using box_scaled_by_ui_scale_and_four_fifths
    [of "\<lambda>path. path" value_float_example sets_example]
  by (simp add: configured_example_def sets_example_def value_float_example_def)

lemma configured_example_config:
  "config configured_example =
      \<lparr>settings_path = ''/.settings.ini'',
       default_settings = [(''ui_scale'', QVFloat 1), (''geometry'', QVByteArray [])],
       config_folder_path = ''/opt/sets/.config'',
       config_subfolders =
         [(''library'', ''/opt/sets/.config/library''),
          (''cache'', ''/opt/sets/.config/cache''),
          (''cargo'', ''/opt/sets/.config/cargo''),
          (''images'', ''/opt/sets/.config/images''),
          (''ship_images'', ''/opt/sets/.config/ship_images'')],
       autosave_filename = ''/opt/sets/.config'' @ [CHR 0x5C] @ ''autosave.json'',
       config_box_width = 49, config_box_height = 64, ui_scale = Some 1\<rparr>"
  by (simp add: configured_example_def init_config_def sets_example_def Let_def
      value_float_example_def)

lemma folders_created_example:
  "create_folders create_folder_example (config configured_example) world_example
     = Inr folders_world_example"
  unfolding configured_example_config
  by (simp add: create_folders_def subfolder_def create_folder_example_def
      world_example_def folders_world_example_def)

lemma autosave_absent_example:
  "\<not> path_exists folders_world_example (autosave_filename (config configured_example))"
  unfolding configured_example_config
  by (simp add: path_exists_def folders_world_example_def)

text \<open>
  C3: the autosave file should lie inside the config folder. On a host whose path
  separator is the slash, with the application in \<open>/opt/sets\<close> and the config
  folder \<open>/.config\<close>, the shell joins the folder and the file name with a backslash:
  the folder of the resulting path is \<open>/opt/sets\<close>, not the config folder
  \<open>/opt/sets/.config\<close>, and that is where startup stores the empty build, beside the
  config folder.
\<close>

theorem autosave_file_beside_config_folder:
  "config_folder_path (config configured_example) = ''/opt/sets/.config''
   \<and> autosave_filename (config configured_example)
     = ''/opt/sets/.config'' @ [CHR 0x5C] @ ''autosave.json''
   \<and> posix_dirname (autosave_filename (config configured_example)) = ''/opt/sets''
   \<and> posix_dirname (autosave_filename (config configured_example))
     \<noteq> config_folder_path (config configured_example)
   \<and> init_environment create_folder_example ''{empty}'' configured_example world_example
     = Inr (store_json ''{empty}'' (autosave_filename (config configured_example))
              folders_world_example)"
proof -
  have d: "posix_dirname (''/opt/sets/.config'' @ [CHR 0x5C] @ ''autosave.json'')
      = ''/opt/sets''"
    by (simp add: posix_dirname_def)
  have i: "init_environment create_folder_example ''{empty}'' configured_example
        world_example
      = Inr (store_json ''{empty}'' (autosave_filename (config configured_example))
               folders_world_example)"
    using autosave_absent_example
    by (simp add: init_environment_def folders_created_example)
  have c: "config_folder_path (config configured_example) = ''/opt/sets/.config''"
    "autosave_filename (config configured_example)
      = ''/opt/sets/.config'' @ [CHR 0x5C] @ ''autosave.json''"
    unfolding configured_example_config by simp_all
  have "posix_dirname (autosave_filename (config configured_example)) = ''/opt/sets''"
    unfolding c(2) by (rule d)
  moreover have "''/opt/sets'' \<noteq> config_folder_path (config configured_example)"
    unfolding c(1) by simp
  ultimately show ?thesis
    using c i by simp
qed

text \<open>
  On startup, once the folders are created, if nothing exists at the autosave path, a
  file holding the empty build is stored there; if something exists there, nothing is
  stored; and if a folder's key is missing, startup fails with that error.
\<close>

theorem autosave_seeded_when_absent:
  "(create_folders create_folder (config self) wd = Inr w5
      \<and> \<not> path_exists w5 (autosave_filename (config self))
    \<longrightarrow> init_environment create_folder empty_build self wd
          = Inr (store_json empty_build (autosave_filename (config self)) w5)
        \<and> files (store_json empty_build (autosave_filename (config self)) w5)
            (autosave_filename (config self))
          = Some empty_build)
   \<and> (create_folders create_folder (config self) wd = Inr w5
      \<and> path_exists w5 (autosave_filename (config self))
    \<longrightarrow> init_environment create_folder empty_build self wd = Inr w5)
   \<and> (create_folders create_folder (config self) wd = Inl e
    \<longrightarrow> init_environment create_folder empty_build self wd = Inl e)"
  by (simp add: init_environment_def store_json_def)

theorem autosave_seeded_when_absent_witness:
  "create_folders create_folder_example (config configured_example) world_example
     = Inr folders_world_example
   \<and> \<not> path_exists folders_world_example (autosave_filename (config configured_example))
   \<and> files
        (store_json ''{empty}'' (autosave_filename (config configured_example))
           folders_world_example)
        (autosave_filename (config configured_example))
     = Some ''{empty}''"
  using autosave_seeded_when_absent
      [where create_folder = create_folder_example and self = configured_example
        and wd = world_example and ?w5.0 = folders_world_example
        and empty_build = "''{empty}''"]
    folders_created_example autosave_absent_example
  by blast

text \<open>
  C7: the close callback writes the window geometry to the settings, then stores the
  current build at the autosave path, then accepts the event: these three, in this
  order, are what it adds to the journal, so the accept follows both writes.
  Afterwards the settings hold the geometry, the autosave file holds the build and the
  event is accepted.
\<close>

theorem close_callback_order:
  "journal (fst (snd (main_window_close_callback self wd event)))
     = journal wd
       @ [SetValue ''geometry'' (QVByteArray (window_geometry self)),
          StoreJson (autosave_filename (config self)) (build self),
          EventAccept]
   \<and> settings (fst (main_window_close_callback self wd event)) ''geometry''
     = Some (QVByteArray (window_geometry self))
   \<and> files (fst (snd (main_window_close_callback self wd event)))
        (autosave_filename (config self))
     = Some (build self)
   \<and> isAccepted (snd (snd (main_window_close_callback self wd event)))"
  by (simp add: main_window_close_callback_def setValue_def autosave_def store_json_def
      accept_def Let_def)

theorem close_callback_order_witness:
  "journal (fst (snd (main_window_close_callback sets_example world_example
        \<lparr>isAccepted = False\<rparr>)))
     = [SetValue ''geometry'' (QVByteArray ''geometry-bytes''),
        StoreJson ''autosave.json'' ''{build}'',
        EventAccept]
   \<and> isAccepted (snd (snd (main_window_close_callback sets_example world_example
        \<lparr>isAccepted = False\<rparr>)))"
  using close_callback_order [of sets_example world_example "\<lparr>isAccepted = False\<rparr>"]
  by (simp add: sets_example_def world_example_def)

end
